theory Spec2Isabelle
  imports Main "HOL-Library.AList"
begin

section \<open>Text\<close>

text \<open>
  Python strings are modelled as \<^typ>\<open>string\<close>. The characters of the source's
  messages that are not ASCII are written as their UTF-8 bytes, all of them above 127;
  no definition below measures the length of a message, so bytes and code points are
  interchangeable here.
\<close>

definition nl :: string where
  "nl = [CHR 0x0A]"

definition backslash :: string where
  "backslash = [CHR 0x5C]"

definition warning_sign :: string where
  "warning_sign = [CHR 0xE2, CHR 0x9A, CHR 0xA0]"

definition en_dash :: string where
  "en_dash = [CHR 0xE2, CHR 0x80, CHR 0x93]"

definition check_mark :: string where
  "check_mark = [CHR 0xE2, CHR 0x9C, CHR 0x85]"

definition right_arrow :: string where
  "right_arrow = [CHR 0xE2, CHR 0x86, CHR 0x92]"

definition ellipsis :: string where
  "ellipsis = [CHR 0xE2, CHR 0x80, CHR 0xA6]"

text \<open>\<open>str(n)\<close> of a non-negative integer, and of any integer: decimal digits.\<close>

definition digit :: "nat \<Rightarrow> char" where
  "digit d = ''0123456789'' ! (d mod 10)"

function str_nat :: "nat \<Rightarrow> string" where
  "str_nat n = (if n < 10 then [digit n] else str_nat (n div 10) @ [digit n])"
  by pat_completeness auto
termination
  by (relation "measure id") auto

declare str_nat.simps [simp del]

definition str_int :: "int \<Rightarrow> string" where
  "str_int i = (if i < 0 then ''-'' @ str_nat (nat (- i)) else str_nat (nat i))"

text \<open>\<open>s.split(c)\<close> for a separator of one character, and \<open>sep.join(xs)\<close>.\<close>

fun split_on :: "char \<Rightarrow> string \<Rightarrow> string list" where
  "split_on c [] = [[]]"
| "split_on c (x # xs) =
     (if x = c then [] # split_on c xs
      else (case split_on c xs of [] \<Rightarrow> [[x]] | y # ys \<Rightarrow> (x # y) # ys))"

fun join_with :: "string \<Rightarrow> string list \<Rightarrow> string" where
  "join_with sep [] = []"
| "join_with sep [x] = x"
| "join_with sep (x # y # ys) = x @ sep @ join_with sep (y # ys)"

section \<open>The bundler (Solar-System/concat.py)\<close>

subsection \<open>The built-in file list\<close>

text \<open>
  A Python \<open>dict\<close> keeps its keys in insertion order, and assigning to a key that is
  already present leaves the key where it is: an association list with
  \<^const>\<open>AList.update\<close>. \<open>dict.fromkeys(xs)\<close> assigns \<open>None\<close> to every key of
  \<open>xs\<close> in turn, and \<open>list(d)\<close> lists the keys.
\<close>

definition dict_fromkeys :: "'k list \<Rightarrow> ('k \<times> unit) list" where
  "dict_fromkeys xs = foldl (\<lambda>d k. AList.update k () d) [] xs"

definition list_of_dict :: "('k \<times> 'v) list \<Rightarrow> 'k list" where
  "list_of_dict d = map fst d"

text \<open>The literal of lines 13 to 26: raw strings of a Windows machine.\<close>

definition project_dir :: string where
  "project_dir = ''C:'' @ backslash @ ''Users'' @ backslash @ ''Alif'' @ backslash
     @ ''Documents'' @ backslash @ ''GitHub'' @ backslash @ ''solar-system''"

definition FILES_literal :: "string list" where
  "FILES_literal =
    [project_dir @ backslash @ ''index.html'',
     project_dir @ backslash @ ''js'' @ backslash @ ''utils.js'',
     project_dir @ backslash @ ''js'' @ backslash @ ''ui.js'',
     project_dir @ backslash @ ''js'' @ backslash @ ''starfield.js'',
     project_dir @ backslash @ ''js'' @ backslash @ ''sceneSetup.js'',
     project_dir @ backslash @ ''js'' @ backslash @ ''main.js'',
     project_dir @ backslash @ ''js'' @ backslash @ ''kepler.js'',
     project_dir @ backslash @ ''js'' @ backslash @ ''controls.js'',
     project_dir @ backslash @ ''js'' @ backslash @ ''celestialBodies.js'',
     project_dir @ backslash @ ''js'' @ backslash @ ''constants.js'',
     project_dir @ backslash @ ''js'' @ backslash @ ''animation.js'',
     project_dir @ backslash @ ''solarsystem_data.json'']"

text \<open>Line 27: \<open>FILES = list(dict.fromkeys(FILES))\<close>.\<close>

definition FILES :: "string list" where
  "FILES = list_of_dict (dict_fromkeys FILES_literal)"

text \<open>
  Order-stable deduplication as the specification words it: every path is kept at its
  first occurrence and dropped everywhere after.
\<close>

fun stable_dedup :: "'a list \<Rightarrow> 'a list" where
  "stable_dedup [] = []"
| "stable_dedup (x # xs) = x # stable_dedup (filter (\<lambda>y. y \<noteq> x) xs)"

subsection \<open>The platform\<close>

text \<open>
  \<open>pathlib\<close>, the file system, the encodings and the buffering of an open text file
  belong to the platform, not to the repository; the bundler is verified for every
  platform, given as a record of what the library calls of \<open>bundle\<close> do:
  \<^item> \<open>path_of f\<close>: the path \<open>Path(f)\<close>, as the string \<open>str\<close> gives for it;
  \<^item> \<open>posix_of f\<close>: \<open>str(PurePosixPath(Path(f)))\<close>, which depends on the flavour of
    the host's paths and on the version of \<open>pathlib\<close>;
  \<^item> \<open>file_id p\<close>: the file the operating system resolves \<open>p\<close> to (two paths may
    name one file);
  \<^item> \<open>can_write p\<close>: whether \<open>p.open("w")\<close> succeeds;
  \<^item> \<open>readback w\<close>: what \<open>read_text\<close> returns for the output file itself while it
    is open and \<open>w\<close> has been written to it (\<open>None\<close>: it raises). How much of \<open>w\<close>
    has reached the disk is the buffer's business;
  \<^item> \<open>write_ok t\<close>: whether \<open>out_fp.write(t)\<close> succeeds, that is, whether the
    encoding of the output file has all of \<open>t\<close>;
  \<^item> \<open>print_ok t\<close>: whether \<open>print(t)\<close> succeeds, that is, whether the encoding of
    \<open>sys.stdout\<close> has all of \<open>t\<close>.
\<close>

record host =
  path_of :: "string \<Rightarrow> string"
  posix_of :: "string \<Rightarrow> string"
  file_id :: "string \<Rightarrow> string"
  can_write :: "string \<Rightarrow> bool"
  readback :: "string \<Rightarrow> string option"
  write_ok :: "string \<Rightarrow> bool"
  print_ok :: "string \<Rightarrow> bool"

text \<open>
  A file system maps a file to what the two calls of the source observe of it:
  \<open>exists()\<close> is false (\<open>Missing\<close>); \<open>read_text\<close> under the run's encoding returns
  a text (\<open>File\<close>); the file exists and \<open>read_text\<close> raises (\<open>Unreadable\<close>: a
  directory, a permission, bytes the encoding rejects); or \<open>exists()\<close> itself raises
  (\<open>Inaccessible\<close>: \<open>Path.exists\<close> swallows the errors of a path that is not there
  and lets every other \<open>OSError\<close> of \<open>stat\<close> through, such as a name too long or a
  directory that may not be searched). The keyword argument \<open>encoding\<close> of \<open>bundle\<close>
  only travels to \<open>open\<close> and \<open>read_text\<close>; its effect is in these readings and in
  \<open>write_ok\<close>, and the text written is recorded as text, before the platform encodes
  it.
\<close>

datatype node = Missing | File string | Unreadable | Inaccessible

type_synonym filesystem = "string \<Rightarrow> node"

text \<open>
  The exceptions that leave a function of the repository. In the bundler: \<open>open\<close>,
  \<open>exists\<close>, \<open>read_text\<close>, \<open>write\<close> or \<open>print\<close> failing. In the server: \<open>bind\<close>
  failing, \<open>serve_forever\<close> ending in an exception other than
  \<open>KeyboardInterrupt\<close>, or \<open>print\<close> failing.
\<close>

datatype exn =
  OpenError | StatError | ReadError | WriteError | PrintError | BindError | ServeError

definition exists_p :: "host \<Rightarrow> filesystem \<Rightarrow> string \<Rightarrow> exn + bool" where
  "exists_p h fs p =
     (case fs (file_id h p) of
        Inaccessible \<Rightarrow> Inl StatError
      | Missing \<Rightarrow> Inr False
      | _ \<Rightarrow> Inr True)"

definition read_text :: "host \<Rightarrow> filesystem \<Rightarrow> string \<Rightarrow> string \<Rightarrow> string \<Rightarrow> string option" where
  "read_text h fs out_path w p =
     (if file_id h p = file_id h out_path then readback h w
      else case fs (file_id h p) of File t \<Rightarrow> Some t | _ \<Rightarrow> None)"

subsection \<open>bundle\<close>

definition HEADER_format :: "string \<Rightarrow> string" where
  "HEADER_format path = ''# ===== '' @ path @ '' ====='' @ nl"

definition warning :: "string \<Rightarrow> string" where
  "warning f = warning_sign @ ''  '' @ f @ '' not found '' @ en_dash @ '' skipped.''"

definition summary :: "nat \<Rightarrow> string \<Rightarrow> nat \<Rightarrow> string" where
  "summary ok out_path skipped =
     check_mark @ ''  wrote '' @ str_nat ok @ '' section(s) '' @ right_arrow @ '' ''
       @ out_path @ '' ''
       @ (if skipped \<noteq> 0 then ''(skipped '' @ str_nat skipped @ '')'' else '''')"

text \<open>
  The variables of a run: the arguments of the calls of \<open>out_fp.write\<close> so far, the
  two counters, and the lines printed.
\<close>

record bundle_state =
  out_fp :: "string list"
  count_ok :: nat
  count_skipped :: nat
  stdout :: "string list"

definition init_state :: bundle_state where
  "init_state = \<lparr>out_fp = [], count_ok = 0, count_skipped = 0, stdout = []\<rparr>"

text \<open>
  The \<open>for\<close> loop of lines 54 to 64. Each of \<open>exists\<close>, \<open>print\<close>, \<open>write\<close> and
  \<open>read_text\<close> may raise, and the exception leaves the loop with what was written and
  printed before it.
\<close>

fun bundle_loop ::
  "host \<Rightarrow> filesystem \<Rightarrow> string \<Rightarrow> string list \<Rightarrow> bundle_state \<Rightarrow> exn option \<times> bundle_state"
where
  "bundle_loop h fs out_path [] s = (None, s)"
| "bundle_loop h fs out_path (f # files) s =
     (case exists_p h fs (path_of h f) of
        Inl e \<Rightarrow> (Some e, s)
      | Inr found \<Rightarrow>
          if \<not> found then
            (if \<not> print_ok h (warning f) then (Some PrintError, s)
             else bundle_loop h fs out_path files
                    (s\<lparr>stdout := stdout s @ [warning f], count_skipped := count_skipped s + 1\<rparr>))
          else if \<not> write_ok h (HEADER_format (posix_of h f)) then (Some WriteError, s)
          else
            (case read_text h fs out_path
                    (concat (out_fp s @ [HEADER_format (posix_of h f)])) (path_of h f) of
               None \<Rightarrow>
                 (Some ReadError, s\<lparr>out_fp := out_fp s @ [HEADER_format (posix_of h f)]\<rparr>)
             | Some t \<Rightarrow>
                 if \<not> write_ok h t
                 then (Some WriteError, s\<lparr>out_fp := out_fp s @ [HEADER_format (posix_of h f)]\<rparr>)
                 else if \<not> write_ok h (nl @ nl)
                 then (Some WriteError,
                       s\<lparr>out_fp := out_fp s @ [HEADER_format (posix_of h f), t]\<rparr>)
                 else bundle_loop h fs out_path files
                        (s\<lparr>out_fp := out_fp s @ [HEADER_format (posix_of h f), t, nl @ nl],
                           count_ok := count_ok s + 1\<rparr>)))"

text \<open>
  A run of \<open>bundle\<close>: what it raised or returned, the file system it leaves, and its
  variables when it ended (with the summary printed, when it got there). The output is
  opened before the loop; leaving the \<open>with\<close> block closes it on every path, so the
  file holds all that was written; the summary is printed after that.
\<close>

record bundle_run =
  outcome :: "exn + string"
  fs_after :: filesystem
  final :: bundle_state

definition "bundle" :: "host \<Rightarrow> filesystem \<Rightarrow> string list option \<Rightarrow> string \<Rightarrow> bundle_run" where
  "bundle h fs files output =
     (let files' = (case files of None \<Rightarrow> FILES | Some given \<Rightarrow> given);
          out_path = path_of h output
      in if \<not> can_write h out_path
         then \<lparr>outcome = Inl OpenError, fs_after = fs, final = init_state\<rparr>
         else
           (let fs1 = fs(file_id h out_path := File []);
                (e, s) = bundle_loop h fs1 out_path files' init_state;
                fs2 = fs1(file_id h out_path := File (concat (out_fp s)))
            in case e of
                 Some x \<Rightarrow> \<lparr>outcome = Inl x, fs_after = fs2, final = s\<rparr>
               | None \<Rightarrow>
                   if \<not> print_ok h (summary (count_ok s) out_path (count_skipped s))
                   then \<lparr>outcome = Inl PrintError, fs_after = fs2, final = s\<rparr>
                   else
                     \<lparr>outcome = Inr out_path, fs_after = fs2,
                      final = s\<lparr>stdout := stdout s
                        @ [summary (count_ok s) out_path (count_skipped s)]\<rparr>\<rparr>))"

text \<open>Lines 30 and 75: run as a script, the module calls \<open>bundle()\<close> with its defaults.\<close>

definition OUTPUT :: string where
  "OUTPUT = ''solar_system_bundle.txt''"

definition concat_script :: "host \<Rightarrow> filesystem \<Rightarrow> bundle_run" where
  "concat_script h fs = bundle h fs None OUTPUT"

text \<open>
  A platform and a file system for concrete runs: paths in normal form already, every
  path its own file, every non-empty path writable, output visible as soon as it is
  written, UTF-8 for the output and for \<open>sys.stdout\<close>; \<open>A.txt\<close> holds \<open>hi\<close>,
  \<open>d\<close> is a directory, nothing else exists.
\<close>

definition posix_host :: host where
  "posix_host = \<lparr>path_of = (\<lambda>s. s), posix_of = (\<lambda>s. s), file_id = (\<lambda>s. s),
     can_write = (\<lambda>p. p \<noteq> []), readback = Some,
     write_ok = (\<lambda>t. True), print_ok = (\<lambda>t. True)\<rparr>"

definition scenario_fs :: filesystem where
  "scenario_fs = (\<lambda>_. Missing)(''A.txt'' := File ''hi'', ''d'' := Unreadable)"

text \<open>
  The same platform with a \<open>sys.stdout\<close> that has ASCII only, and a file system with
  a path on which \<open>stat\<close> fails.
\<close>

definition ascii :: "string \<Rightarrow> bool" where
  "ascii t = list_all (\<lambda>c. (of_char c :: nat) < 128) t"

definition ascii_stdout_host :: host where
  "ascii_stdout_host = posix_host\<lparr>print_ok := ascii\<rparr>"

definition long_name_fs :: filesystem where
  "long_name_fs = (\<lambda>_. Missing)(replicate 300 (CHR ''a'') := Inaccessible)"

subsection \<open>Windows paths\<close>

text \<open>
  How \<open>pathlib\<close> reads a string as a path: an anchor (drive and root) and the names
  after it, empty names and \<open>.\<close> dropped. For the POSIX flavour the anchor is the
  root, \<open>//\<close> when the string begins with exactly two slashes. For the Windows flavour
  the slash counts as a backslash, the drive is a letter and a colon, and the root a
  backslash; strings that begin with two separators, which \<open>pathlib\<close> reads as UNC or
  device paths, are not told apart here and no run below has one. \<open>str\<close> of a path is
  the anchor, then the names joined by the separator, or \<open>.\<close> for the empty path.
\<close>

definition names_of :: "char \<Rightarrow> string \<Rightarrow> string list" where
  "names_of sep rel = filter (\<lambda>x. x \<noteq> [] \<and> x \<noteq> ''.'') (split_on sep rel)"

definition posix_parse :: "string \<Rightarrow> string \<times> string list" where
  "posix_parse s =
     (let stripped = dropWhile (\<lambda>c. c = CHR ''/'') s;
          root = (if length s - length stripped = 0 then []
                  else if length s - length stripped = 2 then ''//'' else ''/'')
      in (root, names_of (CHR ''/'') stripped))"

definition drive_letters :: string where
  "drive_letters = ''abcdefghijklmnopqrstuvwxyzABCDEFGHIJKLMNOPQRSTUVWXYZ''"

definition nt_parse :: "string \<Rightarrow> string \<times> string list" where
  "nt_parse s =
     (let part = map (\<lambda>c. if c = CHR ''/'' then CHR 0x5C else c) s;
          drv = (case part of
                   c # d # _ \<Rightarrow> if c \<in> set drive_letters \<and> d = CHR '':'' then [c, d] else []
                 | _ \<Rightarrow> []);
          rest = drop (length drv) part;
          stripped = dropWhile (\<lambda>c. c = CHR 0x5C) rest;
          root = (if length rest - length stripped = 0 then [] else backslash)
      in (drv @ root, names_of (CHR 0x5C) stripped))"

definition str_path :: "string \<Rightarrow> string \<times> string list \<Rightarrow> string" where
  "str_path sep p =
     (case p of (anchor, names) \<Rightarrow>
        if anchor = [] \<and> names = [] then ''.'' else anchor @ join_with sep names)"

text \<open>
  \<open>PurePosixPath(p)\<close> of a Windows path \<open>p\<close>. Up to Python 3.11 the constructor takes
  the parts of \<open>p\<close>, the anchor being the first, and reads them as POSIX parts: none of
  them has a slash, so they are joined by slashes as they are. In Python 3.12 it takes
  the string that \<open>p\<close> was made from, turns every backslash into a slash, and reads
  the result as a POSIX path.
\<close>

definition posix_of_parts :: "string \<times> string list \<Rightarrow> string" where
  "posix_of_parts p =
     (case p of (anchor, names) \<Rightarrow>
        str_path ''/'' ([], (if anchor = [] then [] else [anchor]) @ names))"

definition posix_of_raw :: "string \<Rightarrow> string" where
  "posix_of_raw s =
     str_path ''/'' (posix_parse (map (\<lambda>c. if c = CHR 0x5C then CHR ''/'' else c) s))"

text \<open>
  Two Windows machines, \<open>windows_311_host\<close> with the \<open>pathlib\<close> of Python 3.11 and
  \<open>windows_host\<close> with that of Python 3.12, otherwise like the platform above, and a
  file system with one file, \<open>ui.js\<close> in \<open>proj\<close> on drive \<open>C:\<close>.
\<close>

definition windows_311_host :: host where
  "windows_311_host = \<lparr>path_of = (\<lambda>s. str_path backslash (nt_parse s)),
     posix_of = (\<lambda>s. posix_of_parts (nt_parse s)),
     file_id = (\<lambda>s. s), can_write = (\<lambda>p. p \<noteq> []), readback = Some,
     write_ok = (\<lambda>t. True), print_ok = (\<lambda>t. True)\<rparr>"

definition windows_host :: host where
  "windows_host = \<lparr>path_of = (\<lambda>s. str_path backslash (nt_parse s)),
     posix_of = posix_of_raw,
     file_id = (\<lambda>s. s), can_write = (\<lambda>p. p \<noteq> []), readback = Some,
     write_ok = (\<lambda>t. True), print_ok = (\<lambda>t. True)\<rparr>"

definition ui_js :: string where
  "ui_js = ''C:'' @ backslash @ ''proj'' @ backslash @ ''ui.js''"

definition windows_fs :: filesystem where
  "windows_fs = (\<lambda>_. Missing)(ui_js := File ''let x;'')"

section \<open>The dev server (serve.py)\<close>

subsection \<open>DevHandler\<close>

text \<open>
  \<open>DevHandler\<close> overrides one method of the standard library's
  \<open>SimpleHTTPRequestHandler\<close>. The base class is not part of the repository; of it the
  model keeps the header buffer, as \<open>http.server\<close> implements it: \<open>send_response_only\<close>
  and \<open>send_header\<close> append a line to the buffer, the base \<open>end_headers\<close> appends
  the empty line and writes the buffer to the client as one block, and all three do
  nothing for a request of version \<open>HTTP/0.9\<close>, whose response has no header block.
\<close>

definition crlf :: string where
  "crlf = [CHR 0x0D, CHR 0x0A]"

datatype written = Headers string | Body string

record handler =
  request_version :: string
  headers_buffer :: "string list"
  wfile :: "written list"

definition send_response_only :: "string \<Rightarrow> handler \<Rightarrow> handler" where
  "send_response_only status_line s =
     (if request_version s \<noteq> ''HTTP/0.9''
      then s\<lparr>headers_buffer := headers_buffer s @ [status_line @ crlf]\<rparr> else s)"

definition send_header :: "string \<Rightarrow> string \<Rightarrow> handler \<Rightarrow> handler" where
  "send_header keyword val s =
     (if request_version s \<noteq> ''HTTP/0.9''
      then s\<lparr>headers_buffer := headers_buffer s @ [keyword @ '': '' @ val @ crlf]\<rparr> else s)"

definition super_end_headers :: "handler \<Rightarrow> handler" where
  "super_end_headers s =
     (if request_version s \<noteq> ''HTTP/0.9''
      then s\<lparr>wfile := wfile s @ [Headers (concat (headers_buffer s @ [crlf]))],
             headers_buffer := []\<rparr>
      else s)"

text \<open>\<open>DevHandler.end_headers\<close>, lines 29 to 34.\<close>

definition end_headers :: "handler \<Rightarrow> handler" where
  "end_headers s =
     super_end_headers
       (send_header ''Expires'' ''0''
         (send_header ''Pragma'' ''no-cache''
           (send_header ''Cache-Control'' ''no-store, no-cache, must-revalidate'' s)))"

text \<open>The three lines that the override adds, as they go over the wire.\<close>

definition no_cache_lines :: string where
  "no_cache_lines = ''Cache-Control: no-store, no-cache, must-revalidate'' @ crlf
     @ ''Pragma: no-cache'' @ crlf @ ''Expires: 0'' @ crlf"

text \<open>
  What the base class does to answer a request is a sequence of calls on the handler;
  \<open>end_headers\<close> resolves to the override. Every response of
  \<open>SimpleHTTPRequestHandler\<close> (a file, a directory listing, a redirect, an error, a
  100-continue) ends its header block by calling \<open>self.end_headers()\<close>.
\<close>

datatype call =
  Send_response_only string
  | Send_header string string
  | End_headers
  | Write_body string

fun do_call :: "call \<Rightarrow> handler \<Rightarrow> handler" where
  "do_call (Send_response_only status_line) s = send_response_only status_line s"
| "do_call (Send_header keyword val) s = send_header keyword val s"
| "do_call End_headers s = end_headers s"
| "do_call (Write_body b) s = s\<lparr>wfile := wfile s @ [Body b]\<rparr>"

fun handle :: "call list \<Rightarrow> handler \<Rightarrow> handler" where
  "handle [] s = s"
| "handle (c # cs) s = handle cs (do_call c s)"

text \<open>
  The calls by which the base class answers one request: the status line, the headers
  of the response, \<open>end_headers\<close>, and the body if there is one; \<open>send_response\<close>,
  \<open>send_error\<close> and \<open>send_head\<close> all come to this.
\<close>

definition response :: "string \<Rightarrow> (string \<times> string) list \<Rightarrow> string list \<Rightarrow> call list" where
  "response status_line headers body =
     Send_response_only status_line # map (\<lambda>(keyword, val). Send_header keyword val) headers
       @ [End_headers] @ map Write_body body"

text \<open>The header blocks among what was written to the client.\<close>

fun header_blocks :: "written list \<Rightarrow> string list" where
  "header_blocks [] = []"
| "header_blocks (Headers b # ws) = b # header_blocks ws"
| "header_blocks (Body b # ws) = header_blocks ws"

subsection \<open>Sockets\<close>

text \<open>
  The operating system's side of \<open>bind\<close>, for one run without interference by other
  processes: the state is the list of addresses bound by open sockets; the machine fixes
  which hosts it can bind (\<open>local_address\<close>) and which port its kernel assigns to a bind
  to port 0 given the addresses in use (\<open>ephemeral\<close>, \<open>None\<close> when it has none to
  give). \<open>sock_bind\<close> returns the port bound, which is what \<open>getsockname()[1]\<close> reads
  back, and the new state. The machine also has the directory of the script
  (\<open>base_dir\<close>) and the encoding of \<open>sys.stdout\<close> (\<open>console_accepts t\<close>: whether it
  has all of \<open>t\<close>).
\<close>

type_synonym address = "string \<times> int"

record machine =
  local_address :: "string \<Rightarrow> bool"
  ephemeral :: "address list \<Rightarrow> string \<Rightarrow> int option"
  base_dir :: string
  console_accepts :: "string \<Rightarrow> bool"

definition sock_bind :: "machine \<Rightarrow> address list \<Rightarrow> address \<Rightarrow> exn + (int \<times> address list)" where
  "sock_bind m bound a =
     (case a of (host, port) \<Rightarrow>
        if \<not> local_address m host \<or> port < 0 \<or> 65535 < port then Inl BindError
        else if port = 0 then
          (case ephemeral m bound host of
             None \<Rightarrow> Inl BindError
           | Some p \<Rightarrow> Inr (p, (host, p) # bound))
        else if (host, port) \<in> set bound then Inl BindError
        else Inr (port, (host, port) # bound))"

definition sock_close :: "address list \<Rightarrow> address \<Rightarrow> address list" where
  "sock_close bound a = remove1 a bound"

text \<open>
  What the kernel promises of the port it assigns: a port number above 0 that no open
  socket holds on that host.
\<close>

definition kernel_contract :: "machine \<Rightarrow> bool" where
  "kernel_contract m =
     (\<forall>bound host p. ephemeral m bound host = Some p \<longrightarrow>
        0 < p \<and> p \<le> 65535 \<and> (host, p) \<notin> set bound)"

subsection \<open>find_free_port and run_server\<close>

text \<open>
  \<open>find_free_port\<close>, lines 37 to 42: \<open>contextlib.closing\<close> closes the probe socket on
  the way out, whether \<open>bind\<close> raised or not. The result is paired with the state of
  the sockets it leaves.
\<close>

definition find_free_port :: "machine \<Rightarrow> address list \<Rightarrow> string \<Rightarrow> int \<Rightarrow> (exn + int) \<times> address list" where
  "find_free_port m bound host port =
     (if port \<noteq> 0 then (Inr port, bound)
      else (case sock_bind m bound (host, 0) of
              Inl e \<Rightarrow> (Inl e, bound)
            | Inr (p, bound') \<Rightarrow> (Inr p, sock_close bound' (host, p))))"

text \<open>How the blocking call \<open>serve_forever\<close> ends: that is the operator's choice.\<close>

datatype stop = Shutdown | Interrupt | Crash

text \<open>
  A run of \<open>run_server\<close>: the exception that left it or the integer it returned, the
  sockets it leaves bound, what happened to the server's own socket in order (the bind
  by \<open>ThreadingHTTPServer\<close>, the \<open>server_close\<close>), the lines it printed, and the
  timers it started (delay in milliseconds, URL to open in the browser).
\<close>

datatype socket_event = Bound address | Closed address

record server_run =
  exit :: "exn + int"
  sockets :: "address list"
  trace :: "socket_event list"
  printed :: "string list"
  timers :: "(nat \<times> string) list"

definition lstrip_slash :: "string \<Rightarrow> string" where
  "lstrip_slash p = dropWhile (\<lambda>c. c = CHR ''/'') p"

text \<open>
  \<open>run_server\<close>, lines 45 to 68. Of its messages only the notice of the interrupt
  handler has a character outside ASCII; \<open>print\<close> raises on it when the encoding of
  \<open>sys.stdout\<close> lacks the character, inside the handler, so that the \<open>finally\<close> block
  still runs and the exception then leaves \<open>run_server\<close>. The other two messages are
  ASCII whenever the host, the directory and the open path are, and are taken to print.
\<close>

definition run_server ::
  "machine \<Rightarrow> address list \<Rightarrow> stop \<Rightarrow> string \<Rightarrow> int \<Rightarrow> string option \<Rightarrow> server_run" where
  "run_server m bound how host port open_path =
     (case find_free_port m bound host port of
        (Inl e, bound1) \<Rightarrow>
          \<lparr>exit = Inl e, sockets = bound1, trace = [], printed = [], timers = []\<rparr>
      | (Inr port', bound1) \<Rightarrow>
          (case sock_bind m bound1 (host, port') of
             Inl e \<Rightarrow> \<lparr>exit = Inl e, sockets = bound1, trace = [], printed = [], timers = []\<rparr>
           | Inr (listening, bound2) \<Rightarrow>
               (let url = ''http://'' @ host @ '':'' @ str_int port' @ ''/'';
                    serving = [''Serving '' @ base_dir m @ '' at '' @ url];
                    (lines, started) =
                      (case open_path of
                         None \<Rightarrow> (serving, [])
                       | Some p \<Rightarrow>
                           if p = [] then (serving, [])
                           else (serving @ [''Opening: '' @ url @ lstrip_slash p],
                                 [(400, url @ lstrip_slash p)]));
                    notice = nl @ ''Shutting down'' @ ellipsis;
                    (result, lines') =
                      (case how of
                         Shutdown \<Rightarrow> (Inr 0, lines)
                       | Interrupt \<Rightarrow>
                           if console_accepts m notice then (Inr 0, lines @ [notice])
                           else (Inl PrintError, lines)
                       | Crash \<Rightarrow> (Inl ServeError, lines))
                in \<lparr>exit = result,
                    sockets = sock_close bound2 (host, listening),
                    trace = [Bound (host, listening), Closed (host, listening)],
                    printed = lines', timers = started\<rparr>)))"

text \<open>
  The status of the process: \<open>sys.exit(main())\<close> exits with the integer returned, and an
  exception that nothing catches ends the interpreter with status 1.
\<close>

definition exit_code :: "server_run \<Rightarrow> int" where
  "exit_code r = (case exit r of Inr n \<Rightarrow> n | Inl e \<Rightarrow> 1)"

subsection \<open>The command lines\<close>

text \<open>
  \<open>argparse\<close> is given as its result: for each option, the value on the command line
  if the option was there; \<open>main\<close> sees the namespace with the declared defaults filled
  in.
\<close>

record serve_cli =
  cli_host :: "string option"
  cli_port :: "int option"
  cli_open :: "string option"
  cli_solar :: bool
  cli_gr :: bool

definition serve_main :: "machine \<Rightarrow> address list \<Rightarrow> stop \<Rightarrow> serve_cli \<Rightarrow> server_run" where
  "serve_main m bound how args =
     (let host = (case cli_host args of None \<Rightarrow> ''127.0.0.1'' | Some v \<Rightarrow> v);
          port = (case cli_port args of None \<Rightarrow> 8000 | Some v \<Rightarrow> v);
          open_path =
            (if cli_solar args then Some ''Solar-System/index.html''
             else if cli_gr args then Some ''general-relativity.html''
             else (case cli_open args of
                     None \<Rightarrow> None
                   | Some p \<Rightarrow> if p = [] then None else Some p))
      in run_server m bound how host port open_path)"

text \<open>\<open>serve_solar.py\<close>: its parser declares \<open>--host\<close> and \<open>--port\<close> only.\<close>

record solar_cli =
  solar_host :: "string option"
  solar_port :: "int option"

definition solar_main :: "machine \<Rightarrow> address list \<Rightarrow> stop \<Rightarrow> solar_cli \<Rightarrow> server_run" where
  "solar_main m bound how args =
     run_server m bound how
       (case solar_host args of None \<Rightarrow> ''127.0.0.1'' | Some v \<Rightarrow> v)
       (case solar_port args of None \<Rightarrow> 8000 | Some v \<Rightarrow> v)
       (Some ''Solar-System/index.html'')"

text \<open>
  The launcher as the specification words it: the dev server with the open path pinned
  to the solar-system entry page.
\<close>

definition launcher_spec :: "machine \<Rightarrow> address list \<Rightarrow> stop \<Rightarrow> string \<Rightarrow> int \<Rightarrow> server_run" where
  "launcher_spec m bound how host port =
     run_server m bound how host port (Some ''Solar-System/index.html'')"

text \<open>
  A machine for concrete runs: the loopback address only, a kernel that hands out
  port 49152 while it is free, and UTF-8 for \<open>sys.stdout\<close>.
\<close>

definition loopback_machine :: machine where
  "loopback_machine =
     \<lparr>local_address = (\<lambda>host. host = ''127.0.0.1''),
      ephemeral = (\<lambda>bound host. if (host, 49152) \<in> set bound then None else Some 49152),
      base_dir = ''/repo'',
      console_accepts = (\<lambda>t. True)\<rparr>"

text \<open>The same machine with a \<open>sys.stdout\<close> that has ASCII only.\<close>

definition ascii_machine :: machine where
  "ascii_machine = loopback_machine\<lparr>console_accepts := ascii\<rparr>"

section \<open>Properties of the bundler\<close>

subsection \<open>Deduplication\<close>

lemma keys_update: "map fst (AList.update k v d) = (if k \<in> set (map fst d) then map fst d else map fst d @ [k])"
  by (induction d) auto

lemma fromkeys_acc:
  "map fst (foldl (\<lambda>d k. AList.update k () d) d xs)
     = map fst d @ stable_dedup (filter (\<lambda>x. x \<notin> set (map fst d)) xs)"
proof (induction xs arbitrary: d)
  case Nil
  show ?case by simp
next
  case (Cons x xs)
  show ?case
  proof (cases "x \<in> set (map fst d)")
    case True
    then show ?thesis using Cons.IH [of "AList.update x () d"]
      by (simp add: keys_update)
  next
    case False
    have "filter (\<lambda>y. y \<notin> set (map fst d @ [x])) xs
            = filter (\<lambda>y. y \<noteq> x) (filter (\<lambda>y. y \<notin> set (map fst d)) xs)"
      by (induction xs) auto
    with False show ?thesis using Cons.IH [of "AList.update x () d"]
      by (simp add: keys_update)
  qed
qed

lemma fromkeys_stable_dedup: "list_of_dict (dict_fromkeys xs) = stable_dedup xs"
  using fromkeys_acc [of "[]" xs] by (simp add: list_of_dict_def dict_fromkeys_def)

lemma set_stable_dedup: "set (stable_dedup xs) = set xs"
  by (induction xs rule: stable_dedup.induct) auto

lemma distinct_stable_dedup: "distinct (stable_dedup xs)"
  by (induction xs rule: stable_dedup.induct) (auto simp: set_stable_dedup)

lemma stable_dedup_distinct: "distinct xs \<Longrightarrow> stable_dedup xs = xs"
proof (induction xs)
  case Nil show ?case by simp
next
  case (Cons a xs)
  then have "filter (\<lambda>y. y \<noteq> a) xs = xs" by (auto simp: filter_id_conv)
  with Cons show ?case by simp
qed

subsection \<open>The loop\<close>

lemma loop_step:
  assumes "bundle_loop h fs out_path (f # files) s = (None, s')"
  shows "(exists_p h fs (path_of h f) = Inr False \<and> print_ok h (warning f) \<and>
          bundle_loop h fs out_path files
            (s\<lparr>stdout := stdout s @ [warning f], count_skipped := count_skipped s + 1\<rparr>)
            = (None, s')) \<or>
         (exists_p h fs (path_of h f) = Inr True \<and>
          (\<exists>t. read_text h fs out_path
                  (concat (out_fp s @ [HEADER_format (posix_of h f)])) (path_of h f) = Some t \<and>
               bundle_loop h fs out_path files
                 (s\<lparr>out_fp := out_fp s @ [HEADER_format (posix_of h f), t, nl @ nl],
                    count_ok := count_ok s + 1\<rparr>) = (None, s')))"
  using assms by (auto split: sum.splits if_splits option.splits)

lemma loop_counts:
  "bundle_loop h fs out_path files s = (None, s') \<Longrightarrow>
     count_ok s' + count_skipped s' = count_ok s + count_skipped s + length files"
proof (induction files arbitrary: s)
  case Nil
  then show ?case by simp
next
  case (Cons f files)
  from loop_step [OF Cons.prems] show ?case
  proof (elim disjE conjE exE)
    assume "bundle_loop h fs out_path files
       (s\<lparr>stdout := stdout s @ [warning f], count_skipped := count_skipped s + 1\<rparr>) = (None, s')"
    from Cons.IH [OF this] show ?thesis by simp
  next
    fix t
    assume "bundle_loop h fs out_path files
       (s\<lparr>out_fp := out_fp s @ [HEADER_format (posix_of h f), t, nl @ nl],
          count_ok := count_ok s + 1\<rparr>) = (None, s')"
    from Cons.IH [OF this] show ?thesis by simp
  qed
qed

lemma loop_chunks:
  "bundle_loop h fs out_path files s = (None, s') \<Longrightarrow>
     length (out_fp s') + 3 * count_ok s = length (out_fp s) + 3 * count_ok s'"
proof (induction files arbitrary: s)
  case Nil
  then show ?case by simp
next
  case (Cons f files)
  from loop_step [OF Cons.prems] show ?case
  proof (elim disjE conjE exE)
    assume "bundle_loop h fs out_path files
       (s\<lparr>stdout := stdout s @ [warning f], count_skipped := count_skipped s + 1\<rparr>) = (None, s')"
    from Cons.IH [OF this] show ?thesis by simp
  next
    fix t
    assume "bundle_loop h fs out_path files
       (s\<lparr>out_fp := out_fp s @ [HEADER_format (posix_of h f), t, nl @ nl],
          count_ok := count_ok s + 1\<rparr>) = (None, s')"
    from Cons.IH [OF this] show ?thesis by simp
  qed
qed

lemma loop_bodies:
  "bundle_loop h fs out_path files s = (None, s') \<Longrightarrow>
     \<exists>bodies.
       list_all2 (\<lambda>f t. \<exists>w. read_text h fs out_path w (path_of h f) = Some t)
         (filter (\<lambda>f. exists_p h fs (path_of h f) = Inr True) files) bodies \<and>
       out_fp s' = out_fp s @ concat (map2 (\<lambda>f t. [HEADER_format (posix_of h f), t, nl @ nl])
                      (filter (\<lambda>f. exists_p h fs (path_of h f) = Inr True) files) bodies)"
proof (induction files arbitrary: s)
  case Nil
  then show ?case by simp
next
  case (Cons f files)
  from loop_step [OF Cons.prems] show ?case
  proof (elim disjE conjE exE)
    assume miss: "exists_p h fs (path_of h f) = Inr False"
      and "bundle_loop h fs out_path files
       (s\<lparr>stdout := stdout s @ [warning f], count_skipped := count_skipped s + 1\<rparr>) = (None, s')"
    from Cons.IH [OF this(2)] miss show ?thesis by simp
  next
    fix t
    assume found: "exists_p h fs (path_of h f) = Inr True"
      and rd: "read_text h fs out_path
                (concat (out_fp s @ [HEADER_format (posix_of h f)])) (path_of h f) = Some t"
      and run: "bundle_loop h fs out_path files
       (s\<lparr>out_fp := out_fp s @ [HEADER_format (posix_of h f), t, nl @ nl],
          count_ok := count_ok s + 1\<rparr>) = (None, s')"
    from Cons.IH [OF run] obtain bodies where
      b: "list_all2 (\<lambda>f t. \<exists>w. read_text h fs out_path w (path_of h f) = Some t)
            (filter (\<lambda>f. exists_p h fs (path_of h f) = Inr True) files) bodies"
         "out_fp s' = (out_fp s @ [HEADER_format (posix_of h f), t, nl @ nl])
            @ concat (map2 (\<lambda>f t. [HEADER_format (posix_of h f), t, nl @ nl])
                      (filter (\<lambda>f. exists_p h fs (path_of h f) = Inr True) files) bodies)"
      by auto
    from rd have "\<exists>w. read_text h fs out_path w (path_of h f) = Some t" by blast
    with found b show ?thesis
      by (intro exI [of _ "t # bodies"]) simp
  qed
qed


lemma loop_all_missing:
  "\<forall>t. print_ok h t \<Longrightarrow> \<forall>f\<in>set files. exists_p h fs (path_of h f) = Inr False \<Longrightarrow>
   bundle_loop h fs out_path files s =
     (None, s\<lparr>stdout := stdout s @ map warning files,
              count_skipped := count_skipped s + length files\<rparr>)"
  by (induction files arbitrary: s) auto

subsection \<open>Runs of bundle\<close>

lemmas run_simps = bundle_def posix_host_def scenario_fs_def exists_p_def read_text_def
  init_state_def HEADER_format_def Let_def

lemma bundle_unwritable:
  "\<not> can_write h (path_of h output) \<Longrightarrow>
   bundle h fs files output = \<lparr>outcome = Inl OpenError, fs_after = fs, final = init_state\<rparr>"
  by (simp add: bundle_def Let_def)

lemma bundle_returns:
  "can_write h (path_of h output) \<Longrightarrow>
   bundle_loop h (fs(file_id h (path_of h output) := File [])) (path_of h output)
     (case files of None \<Rightarrow> FILES | Some given \<Rightarrow> given) init_state = (None, s) \<Longrightarrow>
   print_ok h (summary (count_ok s) (path_of h output) (count_skipped s)) \<Longrightarrow>
   bundle h fs files output =
     \<lparr>outcome = Inr (path_of h output),
      fs_after = fs(file_id h (path_of h output) := File (concat (out_fp s))),
      final = s\<lparr>stdout := stdout s
        @ [summary (count_ok s) (path_of h output) (count_skipped s)]\<rparr>\<rparr>"
  by (simp add: bundle_def Let_def)

lemma bundle_summary_raises:
  "can_write h (path_of h output) \<Longrightarrow>
   bundle_loop h (fs(file_id h (path_of h output) := File [])) (path_of h output)
     (case files of None \<Rightarrow> FILES | Some given \<Rightarrow> given) init_state = (None, s) \<Longrightarrow>
   \<not> print_ok h (summary (count_ok s) (path_of h output) (count_skipped s)) \<Longrightarrow>
   bundle h fs files output =
     \<lparr>outcome = Inl PrintError,
      fs_after = fs(file_id h (path_of h output) := File (concat (out_fp s))),
      final = s\<rparr>"
  by (simp add: bundle_def Let_def)

lemma bundle_raises:
  "can_write h (path_of h output) \<Longrightarrow>
   bundle_loop h (fs(file_id h (path_of h output) := File [])) (path_of h output)
     (case files of None \<Rightarrow> FILES | Some given \<Rightarrow> given) init_state = (Some x, s) \<Longrightarrow>
   bundle h fs files output =
     \<lparr>outcome = Inl x,
      fs_after = fs(file_id h (path_of h output) := File (concat (out_fp s))),
      final = s\<rparr>"
  by (simp add: bundle_def Let_def)

lemma bundle_returned:
  assumes ok: "outcome (bundle h fs files output) = Inr p"
  shows "can_write h (path_of h output) \<and>
    (\<exists>s. bundle_loop h (fs(file_id h (path_of h output) := File [])) (path_of h output)
       (case files of None \<Rightarrow> FILES | Some given \<Rightarrow> given) init_state = (None, s) \<and>
       print_ok h (summary (count_ok s) (path_of h output) (count_skipped s)))"
proof -
  let ?out = "path_of h output"
  let ?fs1 = "fs(file_id h ?out := File [])"
  let ?files = "case files of None \<Rightarrow> FILES | Some given \<Rightarrow> given"
  obtain e s where run: "bundle_loop h ?fs1 ?out ?files init_state = (e, s)"
    by (cases "bundle_loop h ?fs1 ?out ?files init_state")
  have w: "can_write h ?out"
  proof (rule ccontr)
    assume "\<not> can_write h ?out"
    from bundle_unwritable [OF this, of fs files] ok show False by simp
  qed
  have e: "e = None"
  proof (cases e)
    case (Some x)
    with bundle_raises [OF w, of fs files x s] run ok show ?thesis by simp
  qed simp
  have "print_ok h (summary (count_ok s) ?out (count_skipped s))"
  proof (rule ccontr)
    assume "\<not> print_ok h (summary (count_ok s) ?out (count_skipped s))"
    from bundle_summary_raises [OF w _ this, of fs files] run e ok show False by simp
  qed
  with w run e show ?thesis by simp
qed


lemma all_missing_run:
  assumes w: "can_write h (path_of h output)" and pr: "\<forall>t. print_ok h t"
    and miss: "\<forall>f\<in>set files.
       exists_p h (fs(file_id h (path_of h output) := File [])) (path_of h f) = Inr False"
  shows "bundle h fs (Some files) output =
     \<lparr>outcome = Inr (path_of h output),
      fs_after = fs(file_id h (path_of h output) := File []),
      final = \<lparr>out_fp = [], count_ok = 0, count_skipped = length files,
               stdout = map warning files @ [summary 0 (path_of h output) (length files)]\<rparr>\<rparr>"
proof -
  have "bundle_loop h (fs(file_id h (path_of h output) := File [])) (path_of h output)
          (case Some files of None \<Rightarrow> FILES | Some given \<Rightarrow> given) init_state
        = (None, init_state\<lparr>stdout := stdout init_state @ map warning files,
              count_skipped := count_skipped init_state + length files\<rparr>)"
    using loop_all_missing [OF pr miss] by simp
  from bundle_returns [OF w this] pr show ?thesis by (simp add: init_state_def)
qed

lemma bundle_fs_upd:
  "can_write h (path_of h output) \<Longrightarrow>
   bundle h (fs(file_id h (path_of h output) := n)) files output = bundle h fs files output"
  by (simp add: bundle_def)

lemma sections_written:
  "outcome (bundle h fs files output) = Inr p \<Longrightarrow>
   \<exists>bodies.
     list_all2
       (\<lambda>f t. \<exists>w. read_text h (fs(file_id h (path_of h output) := File [])) (path_of h output) w
                     (path_of h f) = Some t)
       (filter (\<lambda>f. exists_p h (fs(file_id h (path_of h output) := File [])) (path_of h f) = Inr True)
          (case files of None \<Rightarrow> FILES | Some given \<Rightarrow> given))
       bodies \<and>
     out_fp (final (bundle h fs files output)) =
       concat (map2 (\<lambda>f t. [''# ===== '' @ posix_of h f @ '' ====='' @ nl, t, nl @ nl])
         (filter (\<lambda>f. exists_p h (fs(file_id h (path_of h output) := File [])) (path_of h f) = Inr True)
            (case files of None \<Rightarrow> FILES | Some given \<Rightarrow> given))
         bodies) \<and>
     fs_after (bundle h fs files output) (file_id h (path_of h output)) =
       File (concat (out_fp (final (bundle h fs files output))))"
proof -
  assume ok: "outcome (bundle h fs files output) = Inr p"
  from bundle_returned [OF ok] obtain s where
    w: "can_write h (path_of h output)" and
    run: "bundle_loop h (fs(file_id h (path_of h output) := File [])) (path_of h output)
       (case files of None \<Rightarrow> FILES | Some given \<Rightarrow> given) init_state = (None, s)" and
    pr: "print_ok h (summary (count_ok s) (path_of h output) (count_skipped s))"
    by blast
  from loop_bodies [OF run] bundle_returns [OF w run pr]
  show ?thesis by (simp add: init_state_def HEADER_format_def)
qed

lemmas windows_simps = windows_311_host_def windows_host_def windows_fs_def ui_js_def
  nt_parse_def posix_parse_def posix_of_parts_def posix_of_raw_def str_path_def names_of_def
  drive_letters_def backslash_def

lemma long_name_not_out: "replicate 300 (CHR ''a'') \<noteq> ''out''"
proof
  assume "replicate 300 (CHR ''a'') = ''out''"
  then have "length (replicate 300 (CHR ''a'')) = length ''out''" by (rule arg_cong)
  then show False by simp
qed

lemma missed_cases_raise:
  "outcome (bundle posix_host long_name_fs (Some [replicate 300 (CHR ''a'')]) ''out'') = Inl StatError \<and>
   outcome (bundle ascii_stdout_host scenario_fs (Some []) ''out'') = Inl PrintError"
  by (simp add: bundle_def ascii_stdout_host_def posix_host_def long_name_fs_def exists_p_def
        init_state_def Let_def summary_def check_mark_def ascii_def long_name_not_out)

text \<open>
  C1, as the code has it. Deduplication is line 27 of the module and applies to the
  built-in list: \<open>list(dict.fromkeys(xs))\<close> is the order-stable deduplication of
  \<open>xs\<close>, for every list; \<open>FILES\<close> is the deduplicated literal, and it is the list
  that \<open>bundle\<close> processes when it is called without a list, as the script does.
\<close>

theorem default_list_deduplicated:
  "list_of_dict (dict_fromkeys xs) = stable_dedup xs \<and>
   FILES = stable_dedup FILES_literal \<and>
   bundle h fs None output = bundle h fs (Some (stable_dedup FILES_literal)) output \<and>
   concat_script h fs = bundle h fs (Some (stable_dedup FILES_literal)) OUTPUT"
  by (simp add: fromkeys_stable_dedup FILES_def bundle_def concat_script_def)

theorem default_list_deduplicated_witness:
  "list_of_dict (dict_fromkeys [''b'', ''a'', ''b'', ''c'', ''a'']) = [''b'', ''a'', ''c''] \<and>
   bundle posix_host scenario_fs None ''out''
     = bundle posix_host scenario_fs (Some (stable_dedup FILES_literal)) ''out''"
  using default_list_deduplicated [of "[''b'', ''a'', ''b'', ''c'', ''a'']" posix_host scenario_fs "''out''"]
  by simp

text \<open>
  C1 as stated fails: a list passed to \<open>bundle\<close> is processed as it is. With
  \<open>A.txt\<close> listed twice the output gets two sections for it, one more than the run
  on the deduplicated list writes.
\<close>

theorem given_list_not_deduplicated:
  "out_fp (final (bundle posix_host scenario_fs (Some [''A.txt'', ''A.txt'']) ''out''))
     = [''# ===== A.txt ====='' @ nl, ''hi'', nl @ nl,
        ''# ===== A.txt ====='' @ nl, ''hi'', nl @ nl] \<and>
   out_fp (final (bundle posix_host scenario_fs
      (Some (list_of_dict (dict_fromkeys [''A.txt'', ''A.txt'']))) ''out''))
     = [''# ===== A.txt ====='' @ nl, ''hi'', nl @ nl]"
  by (simp add: run_simps list_of_dict_def dict_fromkeys_def)

text \<open>
  C2, as the code has it. When \<open>bundle\<close> returns, the sections written and the files
  skipped add up to the length of the list it processed: the list passed, as it is, or
  \<open>FILES\<close> when none was passed; and every section is three writes.
\<close>

theorem counts_add_up:
  "outcome (bundle h fs files output) = Inr p \<Longrightarrow>
     count_ok (final (bundle h fs files output)) + count_skipped (final (bundle h fs files output))
       = length (case files of None \<Rightarrow> FILES | Some given \<Rightarrow> given) \<and>
     length (out_fp (final (bundle h fs files output)))
       = 3 * count_ok (final (bundle h fs files output))"
proof -
  assume ok: "outcome (bundle h fs files output) = Inr p"
  from bundle_returned [OF ok] obtain s where
    w: "can_write h (path_of h output)" and
    run: "bundle_loop h (fs(file_id h (path_of h output) := File [])) (path_of h output)
       (case files of None \<Rightarrow> FILES | Some given \<Rightarrow> given) init_state = (None, s)" and
    pr: "print_ok h (summary (count_ok s) (path_of h output) (count_skipped s))"
    by blast
  from loop_counts [OF run] loop_chunks [OF run] bundle_returns [OF w run pr]
  show ?thesis by (simp add: init_state_def)
qed

theorem counts_add_up_witness:
  "outcome (bundle posix_host scenario_fs (Some [''A.txt'', ''B.txt'', ''A.txt'']) ''out'') = Inr ''out'' \<and>
   count_ok (final (bundle posix_host scenario_fs (Some [''A.txt'', ''B.txt'', ''A.txt'']) ''out''))
     + count_skipped (final (bundle posix_host scenario_fs (Some [''A.txt'', ''B.txt'', ''A.txt'']) ''out''))
     = 3"
proof -
  have ok: "outcome (bundle posix_host scenario_fs (Some [''A.txt'', ''B.txt'', ''A.txt'']) ''out'') = Inr ''out''"
    by (simp add: run_simps)
  from counts_add_up [OF ok] ok show ?thesis by simp
qed

text \<open>
  C2 as stated fails: with a missing \<open>B.txt\<close> listed twice, two files are skipped
  and the deduplicated list has one entry.
\<close>

theorem counts_not_of_deduplicated_list:
  "outcome (bundle posix_host scenario_fs (Some [''B.txt'', ''B.txt'']) ''out'') = Inr ''out'' \<and>
   count_ok (final (bundle posix_host scenario_fs (Some [''B.txt'', ''B.txt'']) ''out'')) = 0 \<and>
   count_skipped (final (bundle posix_host scenario_fs (Some [''B.txt'', ''B.txt'']) ''out'')) = 2 \<and>
   length (list_of_dict (dict_fromkeys [''B.txt'', ''B.txt''])) = 1"
  by (simp add: run_simps list_of_dict_def dict_fromkeys_def)

text \<open>
  C5 fails on the code. The header is always the line \<open># ===== <path> =====\<close> around
  \<open>str(PurePosixPath(p))\<close> (lemma \<open>sections_written\<close>), and the comment of line 61
  calls that the POSIX-style path; but on a Windows host with a \<open>pathlib\<close> before
  Python 3.12 it is not the forward-slash rendering of a path with a drive: for
  \<open>ui.js\<close> in \<open>proj\<close> on drive \<open>C:\<close> the header keeps the backslash of the root,
  where the \<open>pathlib\<close> of Python 3.12 gives \<open>C:/proj/ui.js\<close>; and every path of the
  built-in list has a drive.
\<close>

theorem drive_letter_header_keeps_backslash:
  "outcome (bundle windows_311_host windows_fs (Some [ui_js]) ''out'') = Inr ''out'' \<and>
   out_fp (final (bundle windows_311_host windows_fs (Some [ui_js]) ''out''))
     = [''# ===== C:'' @ backslash @ ''/proj/ui.js ====='' @ nl, ''let x;'', nl @ nl] \<and>
   out_fp (final (bundle windows_host windows_fs (Some [ui_js]) ''out''))
     = [''# ===== C:/proj/ui.js ====='' @ nl, ''let x;'', nl @ nl] \<and>
   posix_of windows_311_host (project_dir @ backslash @ ''index.html'')
     = ''C:'' @ backslash @ ''/Users/Alif/Documents/GitHub/solar-system/index.html''"
  by (simp add: bundle_def exists_p_def read_text_def init_state_def HEADER_format_def Let_def
        windows_simps project_dir_def)

text \<open>
  C6. \<open>bundle\<close> run again on the file system its first run left, with the same list
  and the same output path, is the same run: it raises or returns the same, prints the
  same, and leaves the same file system, the output file included. Opening the output
  for writing truncates it, so nothing of the first run's output reaches the second.
\<close>

theorem bundle_idempotent:
  "bundle h (fs_after (bundle h fs files output)) files output = bundle h fs files output"
proof (cases "can_write h (path_of h output)")
  case False
  then show ?thesis by (simp add: bundle_def)
next
  case True
  then have "\<exists>n. fs_after (bundle h fs files output) = fs(file_id h (path_of h output) := n)"
    by (auto simp: bundle_def Let_def split: prod.splits option.splits)
  then show ?thesis using bundle_fs_upd [OF True] by metis
qed

theorem bundle_idempotent_witness:
  "fs_after (bundle posix_host
      (fs_after (bundle posix_host scenario_fs (Some [''A.txt'', ''out'', ''B.txt'']) ''out''))
      (Some [''A.txt'', ''out'', ''B.txt'']) ''out'') ''out''
   = File (''# ===== A.txt ====='' @ nl @ ''hi'' @ nl @ nl
        @ ''# ===== out ====='' @ nl
        @ ''# ===== A.txt ====='' @ nl @ ''hi'' @ nl @ nl @ ''# ===== out ====='' @ nl
        @ nl @ nl)"
  using bundle_idempotent [of posix_host scenario_fs "Some [''A.txt'', ''out'', ''B.txt'']" "''out''"]
  by (simp add: run_simps)




section \<open>Properties of the dev server\<close>

subsection \<open>DevHandler\<close>

lemma end_headers_block:
  "request_version s \<noteq> ''HTTP/0.9'' \<Longrightarrow>
   end_headers s = s\<lparr>wfile := wfile s @ [Headers (concat (headers_buffer s) @ no_cache_lines @ crlf)],
                     headers_buffer := []\<rparr>"
  by (simp add: end_headers_def super_end_headers_def send_header_def no_cache_lines_def)

lemma end_headers_09:
  "request_version s = ''HTTP/0.9'' \<Longrightarrow> end_headers s = s"
  by (simp add: end_headers_def super_end_headers_def send_header_def)

lemma header_blocks_append:
  "header_blocks (ws @ vs) = header_blocks ws @ header_blocks vs"
  by (induction ws rule: header_blocks.induct) auto

lemma do_call_blocks:
  "\<exists>new. header_blocks (wfile (do_call c s)) = header_blocks (wfile s) @ new \<and>
     (\<forall>b\<in>set new. \<exists>std. b = std @ no_cache_lines @ crlf)"
proof (cases c)
  case End_headers
  show ?thesis
  proof (cases "request_version s = ''HTTP/0.9''")
    case True
    with End_headers show ?thesis by (simp add: end_headers_09)
  next
    case False
    with End_headers show ?thesis
      by (simp add: end_headers_block header_blocks_append)
  qed
qed (simp_all add: send_response_only_def send_header_def header_blocks_append)

lemma handle_blocks:
  "\<forall>b\<in>set (header_blocks (wfile s)). \<exists>std. b = std @ no_cache_lines @ crlf \<Longrightarrow>
   \<forall>b\<in>set (header_blocks (wfile (handle calls s))). \<exists>std. b = std @ no_cache_lines @ crlf"
proof (induction calls arbitrary: s)
  case Nil
  then show ?case by simp
next
  case (Cons c calls)
  from do_call_blocks [of c s] obtain new where
    "header_blocks (wfile (do_call c s)) = header_blocks (wfile s) @ new"
    "\<forall>b\<in>set new. \<exists>std. b = std @ no_cache_lines @ crlf"
    by blast
  with Cons.prems have "\<forall>b\<in>set (header_blocks (wfile (do_call c s))). \<exists>std. b = std @ no_cache_lines @ crlf"
    by auto
  from Cons.IH [OF this] show ?case by simp
qed

lemma handle_append: "handle (cs @ ds) s = handle ds (handle cs s)"
  by (induction cs arbitrary: s) simp_all

lemma handle_bodies: "handle (map Write_body body) s = s\<lparr>wfile := wfile s @ map Body body\<rparr>"
  by (induction body arbitrary: s) simp_all

lemma handle_headers:
  "request_version s \<noteq> ''HTTP/0.9'' \<Longrightarrow>
   handle (map (\<lambda>(keyword, val). Send_header keyword val) headers) s
     = s\<lparr>headers_buffer := headers_buffer s
          @ map (\<lambda>(keyword, val). keyword @ '': '' @ val @ crlf) headers\<rparr>"
  by (induction headers arbitrary: s) (auto simp: send_header_def)

lemma handle_headers_09:
  "request_version s = ''HTTP/0.9'' \<Longrightarrow>
   handle (map (\<lambda>(keyword, val). Send_header keyword val) headers) s = s"
  by (induction headers arbitrary: s) (auto simp: send_header_def)

text \<open>
  C3, as the code has it. The response to a request whose version is not
  \<open>HTTP/0.9\<close> is one header block, then the body: the status line and the headers of
  the base class, then \<open>Cache-Control: no-store, no-cache, must-revalidate\<close>,
  \<open>Pragma: no-cache\<close> and \<open>Expires: 0\<close> with exactly these values, then the empty
  line. While the version of the request is \<open>HTTP/0.9\<close> (a request line of two words,
  or an error answered before the version is read) the response is the body alone.
  Whatever calls the base class makes, every header block that reaches the client ends
  with the three headers.
\<close>

theorem no_cache_headers:
  "(request_version s \<noteq> ''HTTP/0.9'' \<and> headers_buffer s = [] \<longrightarrow>
      wfile (handle (response status_line headers body) s) =
        wfile s
        @ [Headers (status_line @ crlf
             @ concat (map (\<lambda>(keyword, val). keyword @ '': '' @ val @ crlf) headers)
             @ ''Cache-Control: no-store, no-cache, must-revalidate'' @ crlf
             @ ''Pragma: no-cache'' @ crlf
             @ ''Expires: 0'' @ crlf
             @ crlf)]
        @ map Body body) \<and>
   (request_version s = ''HTTP/0.9'' \<longrightarrow>
      wfile (handle (response status_line headers body) s) = wfile s @ map Body body) \<and>
   (wfile s = [] \<longrightarrow>
      (\<forall>block\<in>set (header_blocks (wfile (handle calls s))).
         \<exists>std. block = std
          @ ''Cache-Control: no-store, no-cache, must-revalidate'' @ crlf
          @ ''Pragma: no-cache'' @ crlf
          @ ''Expires: 0'' @ crlf
          @ crlf))"
proof (intro conjI impI)
  assume a: "request_version s \<noteq> ''HTTP/0.9'' \<and> headers_buffer s = []"
  let ?s1 = "send_response_only status_line s"
  let ?s2 = "handle (map (\<lambda>(keyword, val). Send_header keyword val) headers) ?s1"
  from a have v1: "request_version ?s1 \<noteq> ''HTTP/0.9''"
    by (simp add: send_response_only_def)
  from handle_headers [OF v1, of headers] a
  have s2: "?s2 = s\<lparr>headers_buffer := [status_line @ crlf]
          @ map (\<lambda>(keyword, val). keyword @ '': '' @ val @ crlf) headers\<rparr>"
    by (simp add: send_response_only_def)
  then have v2: "request_version ?s2 \<noteq> ''HTTP/0.9''" using a by simp
  have "handle (response status_line headers body) s
      = handle (map Write_body body) (end_headers ?s2)"
    by (simp add: response_def handle_append)
  also have "\<dots> = (end_headers ?s2)\<lparr>wfile := wfile (end_headers ?s2) @ map Body body\<rparr>"
    by (rule handle_bodies)
  finally show "wfile (handle (response status_line headers body) s) =
        wfile s
        @ [Headers (status_line @ crlf
             @ concat (map (\<lambda>(keyword, val). keyword @ '': '' @ val @ crlf) headers)
             @ ''Cache-Control: no-store, no-cache, must-revalidate'' @ crlf
             @ ''Pragma: no-cache'' @ crlf
             @ ''Expires: 0'' @ crlf
             @ crlf)]
        @ map Body body"
    using end_headers_block [OF v2] s2 by (simp add: no_cache_lines_def)
next
  assume a: "request_version s = ''HTTP/0.9''"
  then have s1: "send_response_only status_line s = s"
    by (simp add: send_response_only_def)
  have "handle (response status_line headers body) s
      = handle (map Write_body body) (end_headers
          (handle (map (\<lambda>(keyword, val). Send_header keyword val) headers) s))"
    by (simp add: response_def handle_append s1)
  also have "\<dots> = handle (map Write_body body) s"
    using a by (simp add: handle_headers_09 end_headers_09)
  finally show "wfile (handle (response status_line headers body) s) = wfile s @ map Body body"
    by (simp add: handle_bodies)
next
  assume "wfile s = []"
  with handle_blocks [of s calls]
  show "\<forall>block\<in>set (header_blocks (wfile (handle calls s))).
         \<exists>std. block = std
          @ ''Cache-Control: no-store, no-cache, must-revalidate'' @ crlf
          @ ''Pragma: no-cache'' @ crlf
          @ ''Expires: 0'' @ crlf
          @ crlf"
    by (simp add: no_cache_lines_def)
qed

theorem no_cache_headers_witness:
  "wfile (handle (response ''HTTP/1.0 200 OK'' [(''Content-type'', ''text/html'')] [''<html>''])
      \<lparr>request_version = ''HTTP/1.1'', headers_buffer = [], wfile = []\<rparr>)
   = [Headers (''HTTP/1.0 200 OK'' @ crlf @ ''Content-type: text/html'' @ crlf
        @ ''Cache-Control: no-store, no-cache, must-revalidate'' @ crlf
        @ ''Pragma: no-cache'' @ crlf @ ''Expires: 0'' @ crlf @ crlf),
      Body ''<html>''] \<and>
   wfile (handle (response ''HTTP/1.0 400 Bad request'' [] [])
      \<lparr>request_version = ''HTTP/0.9'', headers_buffer = [], wfile = []\<rparr>) = []"
  using no_cache_headers [of "\<lparr>request_version = ''HTTP/1.1'', headers_buffer = [], wfile = []\<rparr>"
       "''HTTP/1.0 200 OK''" "[(''Content-type'', ''text/html'')]" "[''<html>'']" "[]"]
     no_cache_headers [of "\<lparr>request_version = ''HTTP/0.9'', headers_buffer = [], wfile = []\<rparr>"
       "''HTTP/1.0 400 Bad request''" "[]" "[]" "[]"]
  by simp

text \<open>
  C3 as stated fails: the response to an \<open>HTTP/0.9\<close> request has no header at all,
  so none of the three.
\<close>

theorem http09_response_has_no_headers:
  "wfile (handle (response ''HTTP/1.0 200 OK'' [(''Content-type'', ''text/html'')] [''<html>''])
      \<lparr>request_version = ''HTTP/0.9'', headers_buffer = [], wfile = []\<rparr>)
   = [Body ''<html>'']"
  by (simp add: response_def send_response_only_def send_header_def end_headers_def
        super_end_headers_def)

subsection \<open>Sockets and start-up\<close>

lemma sock_bind_state:
  "sock_bind m bound (host, port) = Inr (p, bound') \<Longrightarrow> bound' = (host, p) # bound"
  by (auto simp: sock_bind_def split: if_splits option.splits)

lemma find_free_port_state:
  "snd (find_free_port m bound host port) = bound"
  by (auto simp: find_free_port_def sock_close_def split: sum.splits dest: sock_bind_state)

lemma find_free_port_nonzero:
  "port \<noteq> 0 \<Longrightarrow> find_free_port m bound host port = (Inr port, bound)"
  by (simp add: find_free_port_def)

lemma find_free_port_probe:
  "sock_bind m bound (host, 0) = Inr (p, bound') \<Longrightarrow>
   find_free_port m bound host 0 = (Inr p, bound)"
  by (auto simp: find_free_port_def sock_close_def dest: sock_bind_state)

lemma find_free_port_raises:
  "sock_bind m bound (host, 0) = Inl e \<Longrightarrow> find_free_port m bound host 0 = (Inl e, bound)"
  by (simp add: find_free_port_def)

lemma ephemeral_port:
  "kernel_contract m \<Longrightarrow> sock_bind m bound (host, 0) = Inr (p, bound') \<Longrightarrow>
   0 < p \<and> p \<le> 65535 \<and> (host, p) \<notin> set bound \<and> local_address m host"
  by (auto simp: sock_bind_def kernel_contract_def split: if_splits option.splits)

lemma rebind:
  "0 < p \<Longrightarrow> p \<le> 65535 \<Longrightarrow> (host, p) \<notin> set bound \<Longrightarrow> local_address m host \<Longrightarrow>
   sock_bind m bound (host, p) = Inr (p, (host, p) # bound)"
  by (simp add: sock_bind_def)

lemma run_server_started:
  "find_free_port m bound host port = (Inr p, bound1) \<Longrightarrow>
   sock_bind m bound1 (host, p) = Inr (q, bound2) \<Longrightarrow>
   run_server m bound how host port open_path =
     (let url = ''http://'' @ host @ '':'' @ str_int p @ ''/'';
          serving = [''Serving '' @ base_dir m @ '' at '' @ url];
          opening = (case open_path of None \<Rightarrow> False | Some path \<Rightarrow> path \<noteq> []);
          notice = nl @ ''Shutting down'' @ ellipsis
      in \<lparr>exit = (case how of
                    Shutdown \<Rightarrow> Inr 0
                  | Interrupt \<Rightarrow> if console_accepts m notice then Inr 0 else Inl PrintError
                  | Crash \<Rightarrow> Inl ServeError),
          sockets = bound,
          trace = [Bound (host, q), Closed (host, q)],
          printed = serving
            @ (if opening then [''Opening: '' @ url @ lstrip_slash (the open_path)] else [])
            @ (if how = Interrupt \<and> console_accepts m notice then [notice] else []),
          timers = (if opening then [(400, url @ lstrip_slash (the open_path))] else [])\<rparr>)"
proof -
  assume f: "find_free_port m bound host port = (Inr p, bound1)"
    and b: "sock_bind m bound1 (host, p) = Inr (q, bound2)"
  from f find_free_port_state [of m bound host port] have b1: "bound1 = bound" by simp
  from sock_bind_state [OF b] have b2: "sock_close bound2 (host, q) = bound1"
    by (simp add: sock_close_def)
  show ?thesis
    using f b b1 b2
    by (cases how; cases open_path) (simp_all add: run_server_def Let_def)
qed

lemma loopback_contract: "kernel_contract loopback_machine"
  by (auto simp: kernel_contract_def loopback_machine_def split: if_splits)

lemmas server_simps = run_server_def find_free_port_def sock_bind_def sock_close_def
  loopback_machine_def lstrip_slash_def str_int_def str_nat.simps digit_def Let_def

text \<open>
  C4, as the code has it. A port other than 0 is returned unchanged. For port 0 the
  probe socket is bound to port 0 of the host: if that bind raises, the exception leaves
  \<open>find_free_port\<close> and \<open>run_server\<close>, and the probe is closed; if it succeeds, on
  a kernel that keeps its contract, the port read back is above 0, the probe is released
  (the sockets are as before), the server's own bind to that port succeeds, and
  \<open>run_server\<close> does not end in a bind error.
\<close>

theorem port_resolution:
  "(port \<noteq> 0 \<longrightarrow> find_free_port m bound host port = (Inr port, bound)) \<and>
   (sock_bind m bound (host, 0) = Inl e \<longrightarrow>
      find_free_port m bound host 0 = (Inl e, bound) \<and>
      exit (run_server m bound how host 0 open_path) = Inl e) \<and>
   (kernel_contract m \<and> sock_bind m bound (host, 0) = Inr (p, bound') \<longrightarrow>
      find_free_port m bound host 0 = (Inr p, bound) \<and> 0 < p \<and>
      sock_bind m bound (host, p) = Inr (p, (host, p) # bound) \<and>
      exit (run_server m bound how host 0 open_path) \<noteq> Inl BindError)"
proof (intro conjI impI)
  assume "port \<noteq> 0"
  then show "find_free_port m bound host port = (Inr port, bound)"
    by (rule find_free_port_nonzero)
next
  assume e: "sock_bind m bound (host, 0) = Inl e"
  then show "find_free_port m bound host 0 = (Inl e, bound)"
    by (rule find_free_port_raises)
  then show "exit (run_server m bound how host 0 open_path) = Inl e"
    by (simp add: run_server_def)
next
  assume a: "kernel_contract m \<and> sock_bind m bound (host, 0) = Inr (p, bound')"
  then show f: "find_free_port m bound host 0 = (Inr p, bound)"
    by (simp add: find_free_port_probe)
  from a ephemeral_port [of m bound host p bound'] show "0 < p" by simp
  from a ephemeral_port [of m bound host p bound']
  show b: "sock_bind m bound (host, p) = Inr (p, (host, p) # bound)"
    by (simp add: rebind)
  from run_server_started [OF f b, of how open_path]
  show "exit (run_server m bound how host 0 open_path) \<noteq> Inl BindError"
    by (cases how) (simp_all add: Let_def)
qed

theorem port_resolution_witness:
  "kernel_contract loopback_machine \<and>
   sock_bind loopback_machine [(''127.0.0.1'', 8000)] (''127.0.0.1'', 0)
     = Inr (49152, [(''127.0.0.1'', 49152), (''127.0.0.1'', 8000)]) \<and>
   find_free_port loopback_machine [(''127.0.0.1'', 8000)] ''127.0.0.1'' 0
     = (Inr 49152, [(''127.0.0.1'', 8000)]) \<and>
   find_free_port loopback_machine [(''127.0.0.1'', 8000)] ''127.0.0.1'' 8080
     = (Inr 8080, [(''127.0.0.1'', 8000)]) \<and>
   exit (run_server loopback_machine [(''127.0.0.1'', 8000)] Shutdown ''127.0.0.1'' 0 None)
     \<noteq> Inl BindError \<and>
   sock_bind loopback_machine [(''127.0.0.1'', 8000)] (''10.0.0.9'', 0) = Inl BindError \<and>
   find_free_port loopback_machine [(''127.0.0.1'', 8000)] ''10.0.0.9'' 0
     = (Inl BindError, [(''127.0.0.1'', 8000)])"
proof -
  have b: "sock_bind loopback_machine [(''127.0.0.1'', 8000)] (''127.0.0.1'', 0)
     = Inr (49152, [(''127.0.0.1'', 49152), (''127.0.0.1'', 8000)])"
    by (simp add: sock_bind_def loopback_machine_def)
  have e: "sock_bind loopback_machine [(''127.0.0.1'', 8000)] (''10.0.0.9'', 0) = Inl BindError"
    by (simp add: sock_bind_def loopback_machine_def)
  have nz: "(8080::int) \<noteq> 0" by simp
  from port_resolution [of 8080 loopback_machine "[(''127.0.0.1'', 8000)]" "''127.0.0.1''"]
       port_resolution [of 0 loopback_machine "[(''127.0.0.1'', 8000)]" "''127.0.0.1''" _ Shutdown None
          49152 "[(''127.0.0.1'', 49152), (''127.0.0.1'', 8000)]"]
       port_resolution [of 0 loopback_machine "[(''127.0.0.1'', 8000)]" "''10.0.0.9''" BindError]
       loopback_contract b e nz
  show ?thesis by simp
qed

text \<open>
  C4 as stated fails: port 0 does not always yield a bound server. On a host that the
  machine cannot bind, the probe's bind raises and there is no port.
\<close>

theorem port_zero_bind_can_fail:
  "find_free_port loopback_machine [] ''192.0.2.1'' 0 = (Inl BindError, []) \<and>
   exit (run_server loopback_machine [] Shutdown ''192.0.2.1'' 0 None) = Inl BindError"
  by (simp add: run_server_def find_free_port_def sock_bind_def loopback_machine_def)

subsection \<open>The launcher\<close>

text \<open>
  C7. \<open>serve_solar.main\<close> is \<open>run_server\<close> with the host and port of its command
  line (same defaults as the dev server) and the open path \<open>Solar-System/index.html\<close>;
  it is the run that \<open>serve.main\<close> makes of the same host and port with \<open>--solar\<close>,
  whatever \<open>--open\<close> and \<open>--gr\<close> say. Its command line has no other option.
\<close>

theorem launcher_forwards:
  "solar_main m bound how \<lparr>solar_host = h, solar_port = p\<rparr>
     = launcher_spec m bound how
         (case h of None \<Rightarrow> ''127.0.0.1'' | Some v \<Rightarrow> v) (case p of None \<Rightarrow> 8000 | Some v \<Rightarrow> v) \<and>
   solar_main m bound how \<lparr>solar_host = h, solar_port = p\<rparr>
     = serve_main m bound how
         \<lparr>cli_host = h, cli_port = p, cli_open = any_open, cli_solar = True, cli_gr = any_gr\<rparr>"
  by (simp add: solar_main_def launcher_spec_def serve_main_def)

theorem launcher_forwards_witness:
  "solar_main loopback_machine [] Interrupt \<lparr>solar_host = None, solar_port = Some 0\<rparr>
     = serve_main loopback_machine [] Interrupt
         \<lparr>cli_host = None, cli_port = Some 0, cli_open = Some ''x.html'', cli_solar = True,
          cli_gr = True\<rparr> \<and>
   timers (solar_main loopback_machine [] Interrupt \<lparr>solar_host = None, solar_port = Some 0\<rparr>)
     = [(400, ''http://127.0.0.1:49152/Solar-System/index.html'')]"
proof -
  have "timers (solar_main loopback_machine [] Interrupt \<lparr>solar_host = None, solar_port = Some 0\<rparr>)
     = [(400, ''http://127.0.0.1:49152/Solar-System/index.html'')]"
    by (simp add: solar_main_def server_simps)
  with launcher_forwards [of loopback_machine "[]" Interrupt None "Some 0" "Some ''x.html''" True]
  show ?thesis by blast
qed

subsection \<open>Shutdown\<close>

text \<open>
  On every way out of \<open>run_server\<close> the sockets are as they were before the run, and
  the server's socket, if it was bound, was closed after that. When \<open>sys.stdout\<close> takes
  the notice, an interrupt is a normal end: the notice is printed and 0 returned.
\<close>

lemma listening_socket_closed:
  "sockets (run_server m bound how host port open_path) = bound \<and>
   (trace (run_server m bound how host port open_path) = [] \<or>
    (\<exists>listening. trace (run_server m bound how host port open_path)
       = [Bound (host, listening), Closed (host, listening)]))"
proof (cases "find_free_port m bound host port")
  case (Pair r bound1)
  with find_free_port_state [of m bound host port] have b1: "bound1 = bound" by simp
  show ?thesis
  proof (cases r)
    case (Inl e)
    with Pair b1 show ?thesis by (simp add: run_server_def)
  next
    case (Inr p)
    show ?thesis
    proof (cases "sock_bind m bound1 (host, p)")
      case (Inl e)
      with Pair Inr b1 show ?thesis by (simp add: run_server_def)
    next
      case (Inr qb)
      obtain q bound2 where "qb = (q, bound2)" by (cases qb)
      with Inr have "sock_bind m bound1 (host, p) = Inr (q, bound2)" by simp
      from run_server_started [OF _ this, of bound port how open_path] Pair \<open>r = Inr p\<close>
      show ?thesis by (simp add: Let_def)
    qed
  qed
qed

lemma interrupt_returns_zero:
  "find_free_port m bound host port = (Inr p, bound1) \<Longrightarrow>
   sock_bind m bound1 (host, p) = Inr (q, bound2) \<Longrightarrow>
   console_accepts m (nl @ ''Shutting down'' @ ellipsis) \<Longrightarrow>
   exit (run_server m bound Interrupt host port open_path) = Inr 0 \<and>
   exit_code (run_server m bound Interrupt host port open_path) = 0 \<and>
   last (printed (run_server m bound Interrupt host port open_path))
     = nl @ ''Shutting down'' @ ellipsis \<and>
   trace (run_server m bound Interrupt host port open_path)
     = [Bound (host, q), Closed (host, q)] \<and>
   sockets (run_server m bound Interrupt host port open_path) = bound"
proof -
  assume f: "find_free_port m bound host port = (Inr p, bound1)"
    and b: "sock_bind m bound1 (host, p) = Inr (q, bound2)"
    and c: "console_accepts m (nl @ ''Shutting down'' @ ellipsis)"
  from run_server_started [OF f b, of Interrupt open_path] c
  show ?thesis by (simp add: exit_code_def Let_def)
qed

text \<open>
  C8 fails on the code. The interrupt handler prints a notice that ends in the
  character U+2026. On a \<open>sys.stdout\<close> whose encoding lacks it, ASCII here, \<open>print\<close>
  raises inside the handler: the \<open>finally\<close> block closes the listening socket, then the
  exception leaves \<open>run_server\<close> in place of the 0, and the process ends with status 1.
\<close>

theorem interrupt_on_ascii_stdout:
  "exit (run_server ascii_machine [] Interrupt ''127.0.0.1'' 8000 None) = Inl PrintError \<and>
   exit_code (run_server ascii_machine [] Interrupt ''127.0.0.1'' 8000 None) = 1 \<and>
   printed (run_server ascii_machine [] Interrupt ''127.0.0.1'' 8000 None)
     = [''Serving /repo at http://127.0.0.1:8000/''] \<and>
   trace (run_server ascii_machine [] Interrupt ''127.0.0.1'' 8000 None)
     = [Bound (''127.0.0.1'', 8000), Closed (''127.0.0.1'', 8000)] \<and>
   sockets (run_server ascii_machine [] Interrupt ''127.0.0.1'' 8000 None) = []"
  by (simp add: server_simps ascii_machine_def ascii_def exit_code_def nl_def ellipsis_def)

subsection \<open>The URL to open\<close>





end
